theory Spec2Isabelle
  imports Main "HOL-Library.Word" "HOL-Library.Monad_Syntax"
begin

section \<open>MeetingMind OBS plugin: the model\<close>

text \<open>
  A shallow embedding of \<^verbatim>\<open>obs-plugin/src/meetingmind-plugin.cpp\<close>. The plugin is a set
  of free functions and widget slots that act on the global pointers \<^verbatim>\<open>plugin_config\<close> and
  \<^verbatim>\<open>websocket\<close> and on two outside parties, the OBS host and the Qt toolkit. The globals and
  the outside parties are fields of one record, \<open>plugin_state\<close>, which every function
  takes and returns. A function that
  dereferences the global socket pointer returns \<open>plugin_state option\<close>: \<open>None\<close> stands for
  a dereference of a null or deleted pointer.

  Modelled are the functions that the dispatcher, the connection, the configuration and
  the log consist of. Left out are the construction of the widget tree, the HTTP health
  check of \<^verbatim>\<open>on_test_connection_clicked\<close>, and the loading and unloading of the module.
\<close>

subsection \<open>The host control surface\<close>

datatype log_level = LOG_WARNING | LOG_INFO

datatype host_call =
    Get_source_by_name string
  | Set_current_scene string
  | Source_release string
  | Source_set_muted string bool
  | Source_set_enabled string bool
  | Recording_active
  | Recording_start
  | Recording_stop

record obs_source =
  source_muted :: bool
  source_enabled :: bool

text \<open>
  Modelled from the spec: the host application (libobs and its frontend API) is not part
  of the repository. Section 6 of the specification describes it as scene lookup by name
  and scene switch, source lookup by name with mute and enable toggles, and recording
  start, stop and is-active queries, where a lookup of an unknown name fails silently.
  The host keeps its named sources (scenes are sources), the current scene, the recording
  flag, its log, and the list of API calls it has received, in the order received. A
  source handle is the name of the source.
\<close>

record obs_host =
  host_sources :: "string \<rightharpoonup> obs_source"
  host_current_scene :: "string option"
  host_recording :: bool
  host_log :: "(log_level \<times> string) list"
  host_calls :: "host_call list"

definition called :: "host_call \<Rightarrow> obs_host \<Rightarrow> obs_host" where
  "called c h = h\<lparr>host_calls := host_calls h @ [c]\<rparr>"

definition obs_get_source_by_name :: "string \<Rightarrow> obs_host \<Rightarrow> string option \<times> obs_host" where
  "obs_get_source_by_name name h =
     ((case host_sources h name of None \<Rightarrow> None | Some _ \<Rightarrow> Some name),
      called (Get_source_by_name name) h)"

definition obs_source_release :: "string \<Rightarrow> obs_host \<Rightarrow> obs_host" where
  "obs_source_release source h = called (Source_release source) h"

definition obs_frontend_set_current_scene :: "string \<Rightarrow> obs_host \<Rightarrow> obs_host" where
  "obs_frontend_set_current_scene scene h =
     called (Set_current_scene scene) (h\<lparr>host_current_scene := Some scene\<rparr>)"

definition obs_source_set_enabled :: "string \<Rightarrow> bool \<Rightarrow> obs_host \<Rightarrow> obs_host" where
  "obs_source_set_enabled source enabled h =
     called (Source_set_enabled source enabled)
       (case host_sources h source of
          None \<Rightarrow> h
        | Some s \<Rightarrow> h\<lparr>host_sources := (host_sources h)(source \<mapsto> s\<lparr>source_enabled := enabled\<rparr>)\<rparr>)"

definition obs_source_set_muted :: "string \<Rightarrow> bool \<Rightarrow> obs_host \<Rightarrow> obs_host" where
  "obs_source_set_muted source muted h =
     called (Source_set_muted source muted)
       (case host_sources h source of
          None \<Rightarrow> h
        | Some s \<Rightarrow> h\<lparr>host_sources := (host_sources h)(source \<mapsto> s\<lparr>source_muted := muted\<rparr>)\<rparr>)"

definition obs_frontend_recording_active :: "obs_host \<Rightarrow> bool \<times> obs_host" where
  "obs_frontend_recording_active h = (host_recording h, called Recording_active h)"

definition obs_frontend_recording_start :: "obs_host \<Rightarrow> obs_host" where
  "obs_frontend_recording_start h = called Recording_start (h\<lparr>host_recording := True\<rparr>)"

definition obs_frontend_recording_stop :: "obs_host \<Rightarrow> obs_host" where
  "obs_frontend_recording_stop h = called Recording_stop (h\<lparr>host_recording := False\<rparr>)"

definition blog :: "log_level \<Rightarrow> string \<Rightarrow> obs_host \<Rightarrow> obs_host" where
  "blog level message h = h\<lparr>host_log := host_log h @ [(level, message)]\<rparr>"

subsection \<open>Scene and source names\<close>

definition SCENE_WELCOME :: string where "SCENE_WELCOME = ''Meeting - Welcome''"
definition SCENE_PRESENTATION :: string where "SCENE_PRESENTATION = ''Meeting - Presentation''"
definition SCENE_DISCUSSION :: string where "SCENE_DISCUSSION = ''Meeting - Discussion''"
definition SCENE_SCREEN_SHARE :: string where "SCENE_SCREEN_SHARE = ''Meeting - Screen Share''"
definition SCENE_BREAK :: string where "SCENE_BREAK = ''Meeting - Break''"
definition SCENE_ENDING :: string where "SCENE_ENDING = ''Meeting - Ending''"

definition AUDIO_MICROPHONE :: string where "AUDIO_MICROPHONE = ''Microphone''"
definition AUDIO_DESKTOP :: string where "AUDIO_DESKTOP = ''Desktop Audio''"
definition AUDIO_MEETING :: string where "AUDIO_MEETING = ''Meeting Audio''"

subsection \<open>Host actions of the plugin\<close>

text \<open>The text that the format \<^verbatim>\<open>'%s'\<close> prints for a string argument.\<close>

definition quoted :: "string \<Rightarrow> string" where
  "quoted s = CHR 0x27 # s @ [CHR 0x27]"

definition switch_to_scene :: "string \<Rightarrow> obs_host \<Rightarrow> obs_host" where
  "switch_to_scene scene_name h =
     (case obs_get_source_by_name scene_name h of
        (Some scene, h1) \<Rightarrow>
          let h2 = obs_frontend_set_current_scene scene h1;
              h3 = obs_source_release scene h2
          in blog LOG_INFO (''MeetingMind: Switched to scene '' @ quoted scene_name) h3
      | (None, h1) \<Rightarrow>
          blog LOG_WARNING (''MeetingMind: Scene '' @ quoted scene_name @ '' not found'') h1)"

definition set_source_visibility :: "string \<Rightarrow> bool \<Rightarrow> obs_host \<Rightarrow> obs_host" where
  "set_source_visibility source_name visible h =
     (case obs_get_source_by_name source_name h of
        (Some source, h1) \<Rightarrow>
          let h2 = obs_source_set_enabled source visible h1;
              h3 = obs_source_release source h2
          in blog LOG_INFO (''MeetingMind: Set source '' @ quoted source_name @ '' visibility to ''
                            @ (if visible then ''visible'' else ''hidden'')) h3
      | (None, h1) \<Rightarrow> h1)"

definition set_source_mute :: "string \<Rightarrow> bool \<Rightarrow> obs_host \<Rightarrow> obs_host" where
  "set_source_mute source_name muted h =
     (case obs_get_source_by_name source_name h of
        (Some source, h1) \<Rightarrow>
          let h2 = obs_source_set_muted source muted h1;
              h3 = obs_source_release source h2
          in blog LOG_INFO (''MeetingMind: Set source '' @ quoted source_name @ '' mute to ''
                            @ (if muted then ''muted'' else ''unmuted'')) h3
      | (None, h1) \<Rightarrow> h1)"

definition start_recording :: "obs_host \<Rightarrow> obs_host" where
  "start_recording h =
     (case obs_frontend_recording_active h of
        (active, h1) \<Rightarrow>
          if \<not> active
          then blog LOG_INFO ''MeetingMind: Started recording'' (obs_frontend_recording_start h1)
          else h1)"

definition stop_recording :: "obs_host \<Rightarrow> obs_host" where
  "stop_recording h =
     (case obs_frontend_recording_active h of
        (active, h1) \<Rightarrow>
          if active
          then blog LOG_INFO ''MeetingMind: Stopped recording'' (obs_frontend_recording_stop h1)
          else h1)"

subsection \<open>The plugin configuration\<close>

text \<open>
  \<^verbatim>\<open>struct meetingmind_config\<close>. A \<^verbatim>\<open>char *\<close> field is \<open>None\<close> when it is the null
  pointer and otherwise holds the bytes before the terminating NUL. An \<^verbatim>\<open>int\<close> is a
  32-bit word.
\<close>

record meetingmind_config =
  server_url :: "string option"
  server_port :: "32 word"
  api_key :: "string option"
  auto_scene_switching :: bool
  auto_recording :: bool
  audio_management :: bool
  meeting_notifications :: bool
  connection_timeout :: "32 word"
  meeting_id :: "string option"
  connected :: bool

text \<open>The struct as \<^verbatim>\<open>bzalloc\<close> returns it: every byte zero.\<close>

definition bzalloc_config :: meetingmind_config where
  "bzalloc_config =
     \<lparr>server_url = None, server_port = 0, api_key = None,
      auto_scene_switching = False, auto_recording = False, audio_management = False,
      meeting_notifications = False, connection_timeout = 0, meeting_id = None,
      connected = False\<rparr>"

definition bstrdup :: "string option \<Rightarrow> string option" where
  "bstrdup s = s"

text \<open>
  \<^verbatim>\<open>text.toUtf8().constData()\<close> read as a C string: the bytes before the first NUL.
\<close>

definition constData :: "string \<Rightarrow> string" where
  "constData text = takeWhile (\<lambda>c. c \<noteq> CHR 0x00) text"

subsection \<open>The configuration file\<close>

datatype config_value = Config_string string | Config_int "64 word" | Config_bool bool

datatype config_open_type = CONFIG_OPEN_EXISTING | CONFIG_OPEN_ALWAYS

datatype config_result = CONFIG_SUCCESS | CONFIG_FILENOTFOUND

text \<open>
  Modelled from the spec: the configuration-file library of the host
  (\<^verbatim>\<open>util/config-file.h\<close>) is not part of the repository. Section 6 of the specification
  describes the persisted configuration as a key-value file with sections. A file is a
  map from (section, name) to a value; a value keeps the type it was set with, and a
  getter of another type, or of a missing key, returns that type's zero (a null string,
  0, false). The calls are modelled as the plugin uses them: \<^verbatim>\<open>config_create\<close> gives an
  empty configuration bound to a path and does not touch the file, \<^verbatim>\<open>config_open\<close> with
  \<^verbatim>\<open>CONFIG_OPEN_EXISTING\<close> reads the file of that path if there is one,
  \<^verbatim>\<open>config_save\<close> writes the file. A null string is saved as the empty string.
\<close>

record config_t =
  config_file :: string
  config_items :: "string \<times> string \<rightharpoonup> config_value"

definition config_create :: "string \<Rightarrow> config_t" where
  "config_create file = \<lparr>config_file = file, config_items = Map.empty\<rparr>"

definition config_open ::
  "config_t \<Rightarrow> config_open_type \<Rightarrow> (string \<rightharpoonup> (string \<times> string \<rightharpoonup> config_value))
     \<Rightarrow> config_result \<times> config_t" where
  "config_open config open_type fs =
     (case fs (config_file config) of
        Some items \<Rightarrow> (CONFIG_SUCCESS, config\<lparr>config_items := items\<rparr>)
      | None \<Rightarrow>
          (case open_type of
             CONFIG_OPEN_EXISTING \<Rightarrow> (CONFIG_FILENOTFOUND, config)
           | CONFIG_OPEN_ALWAYS \<Rightarrow> (CONFIG_SUCCESS, config)))"

definition config_get_string :: "config_t \<Rightarrow> string \<Rightarrow> string \<Rightarrow> string option" where
  "config_get_string config section name =
     (case config_items config (section, name) of
        Some (Config_string s) \<Rightarrow> Some s
      | _ \<Rightarrow> None)"

definition config_get_int :: "config_t \<Rightarrow> string \<Rightarrow> string \<Rightarrow> 64 word" where
  "config_get_int config section name =
     (case config_items config (section, name) of
        Some (Config_int i) \<Rightarrow> i
      | _ \<Rightarrow> 0)"

definition config_get_bool :: "config_t \<Rightarrow> string \<Rightarrow> string \<Rightarrow> bool" where
  "config_get_bool config section name =
     (case config_items config (section, name) of
        Some (Config_bool b) \<Rightarrow> b
      | _ \<Rightarrow> False)"

definition config_set_string :: "config_t \<Rightarrow> string \<Rightarrow> string \<Rightarrow> string option \<Rightarrow> config_t" where
  "config_set_string config section name v =
     config\<lparr>config_items := (config_items config)((section, name) \<mapsto>
        Config_string (case v of None \<Rightarrow> [] | Some s \<Rightarrow> s))\<rparr>"

definition config_set_int :: "config_t \<Rightarrow> string \<Rightarrow> string \<Rightarrow> 64 word \<Rightarrow> config_t" where
  "config_set_int config section name v =
     config\<lparr>config_items := (config_items config)((section, name) \<mapsto> Config_int v)\<rparr>"

definition config_set_bool :: "config_t \<Rightarrow> string \<Rightarrow> string \<Rightarrow> bool \<Rightarrow> config_t" where
  "config_set_bool config section name v =
     config\<lparr>config_items := (config_items config)((section, name) \<mapsto> Config_bool v)\<rparr>"

subsection \<open>JSON values and text messages\<close>

text \<open>
  Modelled from the spec: Qt's JSON classes are not part of the repository. A JSON object
  is the list of its members, in the order they were inserted; \<open>obj[key]\<close> of a missing
  member is the null value,
  \<open>toString\<close> of a value that is not a string is the empty string and \<open>toObject\<close> of a
  value that is not an object is the empty object, the "empty/default value" of section 7
  of the specification. The number of a \<open>JDouble\<close> is never read by the plugin. A text
  message on the socket is the JSON document it is the text of, or some other text, which
  \<open>fromJson\<close> decodes to the null document.
\<close>

datatype QJsonValue =
    JNull
  | JBool bool
  | JDouble int
  | JString string
  | JArray "QJsonValue list"
  | JObject "(string \<times> QJsonValue) list"

type_synonym QJsonObject = "(string \<times> QJsonValue) list"

datatype QJsonDocument = DocNull | DocArray "QJsonValue list" | DocObject QJsonObject

datatype text_message = Json_text QJsonDocument | Other_text string

definition fromJson :: "text_message \<Rightarrow> QJsonDocument" where
  "fromJson message = (case message of Json_text doc \<Rightarrow> doc | Other_text _ \<Rightarrow> DocNull)"

definition toJson :: "QJsonDocument \<Rightarrow> text_message" where
  "toJson doc = Json_text doc"

definition object :: "QJsonDocument \<Rightarrow> QJsonObject" where
  "object doc = (case doc of DocObject obj \<Rightarrow> obj | _ \<Rightarrow> [])"

definition json_value :: "QJsonObject \<Rightarrow> string \<Rightarrow> QJsonValue" where
  "json_value obj key = (case map_of obj key of Some v \<Rightarrow> v | None \<Rightarrow> JNull)"

definition json_insert :: "QJsonObject \<Rightarrow> string \<Rightarrow> QJsonValue \<Rightarrow> QJsonObject" where
  "json_insert obj key v = filter (\<lambda>(k, _). k \<noteq> key) obj @ [(key, v)]"

definition toString :: "QJsonValue \<Rightarrow> string" where
  "toString v = (case v of JString s \<Rightarrow> s | _ \<Rightarrow> [])"

definition toObject :: "QJsonValue \<Rightarrow> QJsonObject" where
  "toObject v = (case v of JObject obj \<Rightarrow> obj | _ \<Rightarrow> [])"

subsection \<open>Sockets, the widget and the state of the plugin\<close>

datatype socket_state = UnconnectedState | ConnectingState

record QNetworkRequest =
  request_url :: string
  raw_headers :: "(string \<times> string) list"

record QWebSocket =
  socket_state :: socket_state
  socket_request :: "QNetworkRequest option"

datatype socket_op =
    Op_new nat
  | Op_open nat QNetworkRequest
  | Op_close nat
  | Op_delete nat
  | Op_send nat text_message

record widget =
  server_url_edit :: string
  server_port_spin :: "32 word"
  api_key_edit :: string
  meeting_id_edit :: string
  auto_scene_switching_check :: bool
  auto_recording_check :: bool
  audio_management_check :: bool
  meeting_notifications_check :: bool
  connect_button_enabled :: bool
  disconnect_button_enabled :: bool
  connection_status_label :: string
  connection_status_style :: string
  meeting_status_label :: string
  recording_status_label :: string
  log_text :: "string list"

text \<open>
  The globals \<^verbatim>\<open>plugin_config\<close> and \<^verbatim>\<open>websocket\<close>, the socket objects that exist (by
  object identity, with the operations performed on them in order), the widget, the host,
  the files, and the wall clock as the text \<^verbatim>\<open>hh:mm:ss\<close>.
\<close>

record plugin_state =
  plugin_config :: "meetingmind_config option"
  websocket :: "nat option"
  sockets :: "nat \<rightharpoonup> QWebSocket"
  next_object :: nat
  socket_trace :: "socket_op list"
  ui :: widget
  obs :: obs_host
  files :: "string \<rightharpoonup> (string \<times> string \<rightharpoonup> config_value)"
  module_config_dir :: string
  current_time :: string

definition obs_module_config_path :: "string \<Rightarrow> plugin_state \<Rightarrow> string" where
  "obs_module_config_path file w = module_config_dir w @ ''/'' @ file"

definition config_save :: "config_t \<Rightarrow> plugin_state \<Rightarrow> plugin_state" where
  "config_save config w = w\<lparr>files := (files w)(config_file config \<mapsto> config_items config)\<rparr>"

text \<open>
  Modelled from the spec: Qt's socket class is not part of the repository. \<open>new\<close> creates
  an object of a fresh identity, \<open>delete\<close> destroys it, and a call on an object that does
  not exist is \<open>None\<close>.
\<close>

definition new_QWebSocket :: "plugin_state \<Rightarrow> nat \<times> plugin_state" where
  "new_QWebSocket w =
     (let p = next_object w
      in (p, w\<lparr>sockets := (sockets w)(p \<mapsto> \<lparr>socket_state = UnconnectedState, socket_request = None\<rparr>),
               next_object := Suc p,
               socket_trace := socket_trace w @ [Op_new p]\<rparr>))"

definition delete_QWebSocket :: "nat \<Rightarrow> plugin_state \<Rightarrow> plugin_state option" where
  "delete_QWebSocket p w =
     (case sockets w p of
        None \<Rightarrow> None
      | Some _ \<Rightarrow> Some (w\<lparr>sockets := (sockets w)(p := None),
                           socket_trace := socket_trace w @ [Op_delete p]\<rparr>))"

definition QWebSocket_close :: "nat \<Rightarrow> plugin_state \<Rightarrow> plugin_state option" where
  "QWebSocket_close p w =
     (case sockets w p of
        None \<Rightarrow> None
      | Some s \<Rightarrow> Some (w\<lparr>sockets := (sockets w)(p \<mapsto> s\<lparr>socket_state := UnconnectedState\<rparr>),
                           socket_trace := socket_trace w @ [Op_close p]\<rparr>))"

definition QWebSocket_open :: "nat \<Rightarrow> QNetworkRequest \<Rightarrow> plugin_state \<Rightarrow> plugin_state option" where
  "QWebSocket_open p request w =
     (case sockets w p of
        None \<Rightarrow> None
      | Some s \<Rightarrow> Some (w\<lparr>sockets := (sockets w)(p \<mapsto>
                             s\<lparr>socket_state := ConnectingState, socket_request := Some request\<rparr>),
                           socket_trace := socket_trace w @ [Op_open p request]\<rparr>))"

definition QWebSocket_sendTextMessage :: "nat \<Rightarrow> text_message \<Rightarrow> plugin_state \<Rightarrow> plugin_state option" where
  "QWebSocket_sendTextMessage p message w =
     (case sockets w p of
        None \<Rightarrow> None
      | Some _ \<Rightarrow> Some (w\<lparr>socket_trace := socket_trace w @ [Op_send p message]\<rparr>))"

subsection \<open>The activity log\<close>

text \<open>
  Modelled from the spec: Qt's text document is not part of the repository. The document
  of the log is the list of its blocks (lines), oldest first; the empty document has one
  empty block. \<open>append\<close> starts a new block unless the document is empty, and a line feed
  in the text starts a further block. A cursor moved from the start down by \<open>n\<close> lines,
  keeping the anchor, selects the first \<open>n\<close> blocks when each block is one line.
\<close>

fun split_lines :: "string \<Rightarrow> string list" where
  "split_lines [] = [[]]"
| "split_lines (c # cs) =
     (if c = CHR 0x0A then [] # split_lines cs
      else (case split_lines cs of
              [] \<Rightarrow> [[c]]
            | l # ls \<Rightarrow> (c # l) # ls))"

definition append_text :: "string \<Rightarrow> string list \<Rightarrow> string list" where
  "append_text text doc =
     (if doc = [] \<or> doc = [[]] then split_lines text else doc @ split_lines text)"

definition blockCount :: "string list \<Rightarrow> nat" where
  "blockCount doc = length doc"

definition remove_first_lines :: "nat \<Rightarrow> string list \<Rightarrow> string list" where
  "remove_first_lines n doc = drop n doc"

definition log_message :: "string \<Rightarrow> plugin_state \<Rightarrow> plugin_state" where
  "log_message message w =
     (let timestamp = current_time w;
          log_entry = ''['' @ timestamp @ ''] '' @ message;
          doc = append_text log_entry (log_text (ui w));
          doc = (if blockCount doc > 100
                 then remove_first_lines (blockCount doc - 100) doc
                 else doc)
      in w\<lparr>ui := (ui w)\<lparr>log_text := doc\<rparr>\<rparr>)"

text \<open>The marks that start some log lines, as UTF-8.\<close>

definition CHECK_MARK :: string where "CHECK_MARK = [CHR 0xE2, CHR 0x9C, CHR 0x93]"
definition BALLOT_X :: string where "BALLOT_X = [CHR 0xE2, CHR 0x9C, CHR 0x97]"

subsection \<open>Loading and saving the configuration\<close>

definition load_config :: "plugin_state \<Rightarrow> plugin_state" where
  "load_config w =
     (let c = (case plugin_config w of None \<Rightarrow> bzalloc_config | Some c \<Rightarrow> c);
          config_path = obs_module_config_path ''meetingmind.ini'' w;
          config = config_create config_path;
          (result, config) = config_open config CONFIG_OPEN_EXISTING (files w);
          c = (if result = CONFIG_SUCCESS
               then c\<lparr>server_url := bstrdup (config_get_string config ''connection'' ''server_url''),
                      server_port := ucast (config_get_int config ''connection'' ''server_port''),
                      api_key := bstrdup (config_get_string config ''connection'' ''api_key''),
                      meeting_id := bstrdup (config_get_string config ''connection'' ''meeting_id''),
                      auto_scene_switching := config_get_bool config ''features'' ''auto_scene_switching'',
                      auto_recording := config_get_bool config ''features'' ''auto_recording'',
                      audio_management := config_get_bool config ''features'' ''audio_management'',
                      meeting_notifications := config_get_bool config ''features'' ''meeting_notifications'',
                      connection_timeout := ucast (config_get_int config ''advanced'' ''connection_timeout'')\<rparr>
               else c\<lparr>server_url := bstrdup (Some ''localhost''),
                      server_port := 8080,
                      api_key := bstrdup (Some []),
                      meeting_id := bstrdup (Some []),
                      auto_scene_switching := True,
                      auto_recording := True,
                      audio_management := True,
                      meeting_notifications := True,
                      connection_timeout := 10\<rparr>);
          c = c\<lparr>connected := False\<rparr>
      in w\<lparr>plugin_config := Some c\<rparr>)"

definition save_config :: "plugin_state \<Rightarrow> plugin_state" where
  "save_config w =
     (case plugin_config w of
        None \<Rightarrow> w
      | Some c \<Rightarrow>
          let config_path = obs_module_config_path ''meetingmind.ini'' w;
              config = config_create config_path;
              config = config_set_string config ''connection'' ''server_url'' (server_url c);
              config = config_set_int config ''connection'' ''server_port'' (scast (server_port c));
              config = config_set_string config ''connection'' ''api_key'' (api_key c);
              config = config_set_string config ''connection'' ''meeting_id'' (meeting_id c);
              config = config_set_bool config ''features'' ''auto_scene_switching'' (auto_scene_switching c);
              config = config_set_bool config ''features'' ''auto_recording'' (auto_recording c);
              config = config_set_bool config ''features'' ''audio_management'' (audio_management c);
              config = config_set_bool config ''features'' ''meeting_notifications'' (meeting_notifications c);
              config = config_set_int config ''advanced'' ''connection_timeout'' (scast (connection_timeout c))
          in config_save config w)"

subsection \<open>Connecting and disconnecting\<close>

text \<open>The decimal text of a number, as \<^verbatim>\<open>QString::arg\<close> prints an \<^verbatim>\<open>int\<close>.\<close>

definition digit :: "nat \<Rightarrow> char" where
  "digit n = ''0123456789'' ! n"

fun show_nat :: "nat \<Rightarrow> string" where
  "show_nat n =
     (if n < 10 then [digit n]
      else show_nat (n div 10) @ [digit (n mod 10)])"

definition show_int :: "int \<Rightarrow> string" where
  "show_int i = (if i < 0 then CHR ''-'' # show_nat (nat (- i)) else show_nat (nat i))"

text \<open>
  The address is \<^verbatim>\<open>QString("ws://%1:%2/ws").arg(server_url).arg(server_port)\<close>, written
  here as the text it gives for a server address that contains no place marker. A null
  server address prints as the empty text.
\<close>

definition connect_to_server :: "plugin_state \<Rightarrow> plugin_state option" where
  "connect_to_server w =
     (case plugin_config w of
        None \<Rightarrow> Some w
      | Some c \<Rightarrow> do {
          w \<leftarrow> (case websocket w of
                  Some p \<Rightarrow> do { w \<leftarrow> QWebSocket_close p w; delete_QWebSocket p w }
                | None \<Rightarrow> Some w);
          let url = ''ws://'' @ (case server_url c of None \<Rightarrow> [] | Some s \<Rightarrow> s) @ '':''
                    @ show_int (sint (server_port c)) @ ''/ws'';
          let (p, w) = new_QWebSocket w;
          let w = w\<lparr>websocket := Some p\<rparr>;
          let request = \<lparr>request_url = url, raw_headers = []\<rparr>;
          let request = (case api_key c of
                           Some k \<Rightarrow>
                             if length k > 0
                             then request\<lparr>raw_headers := raw_headers request
                                            @ [(''Authorization'', ''Bearer '' @ k)]\<rparr>
                             else request
                         | None \<Rightarrow> request);
          QWebSocket_open p request w
        })"

definition disconnect_from_server :: "plugin_state \<Rightarrow> plugin_state option" where
  "disconnect_from_server w =
     (case websocket w of
        Some p \<Rightarrow> QWebSocket_close p w
      | None \<Rightarrow> Some w)"

subsection \<open>The event dispatcher\<close>

definition handle_meeting_event :: "string \<Rightarrow> QJsonObject \<Rightarrow> plugin_state \<Rightarrow> plugin_state" where
  "handle_meeting_event event_type data w =
     (case plugin_config w of
        None \<Rightarrow> w
      | Some c \<Rightarrow>
          let h = obs w;
              h =
               (if event_type = ''meeting_started'' then
                  let h = (if auto_scene_switching c then switch_to_scene SCENE_WELCOME h else h);
                      h = (if auto_recording c then start_recording h else h);
                      h = (if audio_management c then set_source_mute AUDIO_MICROPHONE False h else h)
                  in h
                else if event_type = ''meeting_ended'' then
                  let h = (if auto_scene_switching c then switch_to_scene SCENE_ENDING h else h);
                      h = (if auto_recording c then stop_recording h else h)
                  in h
                else if event_type = ''presentation_started'' then
                  let h = (if auto_scene_switching c then switch_to_scene SCENE_PRESENTATION h else h)
                  in h
                else if event_type = ''screen_share_started'' then
                  let h = (if auto_scene_switching c then switch_to_scene SCENE_SCREEN_SHARE h else h);
                      h = (if audio_management c then set_source_mute AUDIO_DESKTOP False h else h)
                  in h
                else if event_type = ''screen_share_ended'' then
                  let h = (if auto_scene_switching c then switch_to_scene SCENE_DISCUSSION h else h)
                  in h
                else if event_type = ''break_started'' then
                  let h = (if auto_scene_switching c then switch_to_scene SCENE_BREAK h else h);
                      h = (if audio_management c then set_source_mute AUDIO_MICROPHONE True h else h)
                  in h
                else if event_type = ''break_ended'' then
                  let h = (if auto_scene_switching c then switch_to_scene SCENE_DISCUSSION h else h);
                      h = (if audio_management c then set_source_mute AUDIO_MICROPHONE False h else h)
                  in h
                else h)
          in w\<lparr>obs := h\<rparr>)"

subsection \<open>The slots of the widget\<close>

definition update_connection_status :: "plugin_state \<Rightarrow> plugin_state" where
  "update_connection_status w =
     (if (case plugin_config w of None \<Rightarrow> False | Some c \<Rightarrow> connected c)
      then w\<lparr>ui := (ui w)\<lparr>connection_status_label := ''Connected'',
                           connection_status_style := ''color: green;'',
                           connect_button_enabled := False,
                           disconnect_button_enabled := True\<rparr>\<rparr>
      else w\<lparr>ui := (ui w)\<lparr>connection_status_label := ''Disconnected'',
                           connection_status_style := ''color: red;'',
                           connect_button_enabled := True,
                           disconnect_button_enabled := False\<rparr>\<rparr>)"

definition on_connect_clicked :: "plugin_state \<Rightarrow> plugin_state option" where
  "on_connect_clicked w = connect_to_server w"

definition on_disconnect_clicked :: "plugin_state \<Rightarrow> plugin_state option" where
  "on_disconnect_clicked w = disconnect_from_server w"

definition on_config_changed :: "plugin_state \<Rightarrow> plugin_state" where
  "on_config_changed w =
     (case plugin_config w of
        None \<Rightarrow> w
      | Some c \<Rightarrow>
          let c = c\<lparr>server_url := bstrdup (Some (constData (server_url_edit (ui w)))),
                    server_port := server_port_spin (ui w),
                    api_key := bstrdup (Some (constData (api_key_edit (ui w)))),
                    meeting_id := bstrdup (Some (constData (meeting_id_edit (ui w)))),
                    auto_scene_switching := auto_scene_switching_check (ui w),
                    auto_recording := auto_recording_check (ui w),
                    audio_management := audio_management_check (ui w),
                    meeting_notifications := meeting_notifications_check (ui w)\<rparr>
          in save_config (w\<lparr>plugin_config := Some c\<rparr>))"

definition on_websocket_connected :: "plugin_state \<Rightarrow> plugin_state option" where
  "on_websocket_connected w = do {
     let w = (case plugin_config w of
                Some c \<Rightarrow> w\<lparr>plugin_config := Some (c\<lparr>connected := True\<rparr>)\<rparr>
              | None \<Rightarrow> w);
     let w = log_message (CHECK_MARK @ '' Connected to MeetingMind WebSocket'') w;
     let w = update_connection_status w;
     if meeting_id_edit (ui w) \<noteq> [] then do {
       let subscribe_msg = [];
       let subscribe_msg = json_insert subscribe_msg ''type'' (JString ''subscribe'');
       let subscribe_msg = json_insert subscribe_msg ''meeting_id'' (JString (meeting_id_edit (ui w)));
       let doc = DocObject subscribe_msg;
       p \<leftarrow> websocket w;
       w \<leftarrow> QWebSocket_sendTextMessage p (toJson doc) w;
       Some (log_message (''Subscribed to meeting: '' @ meeting_id_edit (ui w)) w)
     } else Some w
   }"

definition on_websocket_disconnected :: "plugin_state \<Rightarrow> plugin_state" where
  "on_websocket_disconnected w =
     (let w = (case plugin_config w of
                 Some c \<Rightarrow> w\<lparr>plugin_config := Some (c\<lparr>connected := False\<rparr>)\<rparr>
               | None \<Rightarrow> w);
          w = log_message (BALLOT_X @ '' Disconnected from MeetingMind WebSocket'') w
      in update_connection_status w)"

definition on_websocket_message :: "text_message \<Rightarrow> plugin_state \<Rightarrow> plugin_state" where
  "on_websocket_message message w =
     (let doc = fromJson message;
          obj = object doc;
          event_type = toString (json_value obj ''type'');
          event_data = toObject (json_value obj ''data'');
          w = log_message (''Received event: '' @ event_type) w
      in handle_meeting_event event_type event_data w)"

definition on_status_update :: "plugin_state \<Rightarrow> plugin_state" where
  "on_status_update w =
     (case obs_frontend_recording_active (obs w) of
        (recording, h) \<Rightarrow>
          let w = w\<lparr>obs := h\<rparr>;
              w = w\<lparr>ui := (ui w)\<lparr>recording_status_label :=
                      (if recording then ''Recording'' else ''Not recording'')\<rparr>\<rparr>
          in if (case plugin_config w of None \<Rightarrow> False | Some c \<Rightarrow> connected c)
             then w\<lparr>ui := (ui w)\<lparr>meeting_status_label := ''Connected to meeting''\<rparr>\<rparr>
             else w\<lparr>ui := (ui w)\<lparr>meeting_status_label := ''No active meeting''\<rparr>\<rparr>)"

subsection \<open>Calls of the plugin from outside\<close>

text \<open>
  The plugin has no loop of its own: the toolkit and the host call into it. A form edit
  changes one field of the form and the toolkit then calls \<open>on_config_changed\<close>, as the
  \<^verbatim>\<open>connect\<close> calls of \<^verbatim>\<open>setup_ui\<close> arrange. The three socket callbacks are slots of the
  widget; the source has no \<^verbatim>\<open>connect\<close> call that ties them to the signals of the socket, so
  a call of one of them here is a call by whoever delivers the signal.
\<close>

datatype form_edit =
    Edit_server_url string
  | Edit_server_port "32 word"
  | Edit_api_key string
  | Edit_meeting_id string
  | Toggle_auto_scene_switching bool
  | Toggle_auto_recording bool
  | Toggle_audio_management bool
  | Toggle_meeting_notifications bool

fun apply_edit :: "form_edit \<Rightarrow> widget \<Rightarrow> widget" where
  "apply_edit (Edit_server_url s) u = u\<lparr>server_url_edit := s\<rparr>"
| "apply_edit (Edit_server_port n) u = u\<lparr>server_port_spin := n\<rparr>"
| "apply_edit (Edit_api_key s) u = u\<lparr>api_key_edit := s\<rparr>"
| "apply_edit (Edit_meeting_id s) u = u\<lparr>meeting_id_edit := s\<rparr>"
| "apply_edit (Toggle_auto_scene_switching b) u = u\<lparr>auto_scene_switching_check := b\<rparr>"
| "apply_edit (Toggle_auto_recording b) u = u\<lparr>auto_recording_check := b\<rparr>"
| "apply_edit (Toggle_audio_management b) u = u\<lparr>audio_management_check := b\<rparr>"
| "apply_edit (Toggle_meeting_notifications b) u = u\<lparr>meeting_notifications_check := b\<rparr>"

datatype event =
    Load_config
  | Form_edited form_edit
  | Connect_clicked
  | Disconnect_clicked
  | Websocket_connected
  | Websocket_disconnected
  | Websocket_message text_message
  | Status_update
  | Clock string

fun step :: "event \<Rightarrow> plugin_state \<Rightarrow> plugin_state option" where
  "step Load_config w = Some (load_config w)"
| "step (Form_edited e) w = Some (on_config_changed (w\<lparr>ui := apply_edit e (ui w)\<rparr>))"
| "step Connect_clicked w = on_connect_clicked w"
| "step Disconnect_clicked w = on_disconnect_clicked w"
| "step Websocket_connected w = on_websocket_connected w"
| "step Websocket_disconnected w = Some (on_websocket_disconnected w)"
| "step (Websocket_message m) w = Some (on_websocket_message m w)"
| "step Status_update w = Some (on_status_update w)"
| "step (Clock t) w = Some (w\<lparr>current_time := t\<rparr>)"

fun run :: "event list \<Rightarrow> plugin_state \<Rightarrow> plugin_state option" where
  "run [] w = Some w"
| "run (e # es) w = (case step e w of None \<Rightarrow> None | Some w' \<Rightarrow> run es w')"

text \<open>What \<^verbatim>\<open>plugin_config && plugin_config->connected\<close> reads.\<close>

definition connected_flag :: "plugin_state \<Rightarrow> bool" where
  "connected_flag w = (case plugin_config w of None \<Rightarrow> False | Some c \<Rightarrow> connected c)"

subsection \<open>States to run the plugin from\<close>

text \<open>The widget as \<^verbatim>\<open>setup_ui\<close> leaves it.\<close>

definition initial_widget :: widget where
  "initial_widget =
     \<lparr>server_url_edit = [], server_port_spin = 8080, api_key_edit = [], meeting_id_edit = [],
      auto_scene_switching_check = False, auto_recording_check = False,
      audio_management_check = False, meeting_notifications_check = False,
      connect_button_enabled = True, disconnect_button_enabled = True,
      connection_status_label = ''Disconnected'', connection_status_style = [],
      meeting_status_label = ''No active meeting'',
      recording_status_label = ''Not recording'',
      log_text = [[]]\<rparr>"

text \<open>A host with no scene and no source, and a host with one scene and the microphone.\<close>

definition bare_host :: obs_host where
  "bare_host =
     \<lparr>host_sources = Map.empty, host_current_scene = None, host_recording = False,
      host_log = [], host_calls = []\<rparr>"

definition studio_host :: obs_host where
  "studio_host =
     bare_host\<lparr>host_sources :=
       [SCENE_WELCOME \<mapsto> \<lparr>source_muted = False, source_enabled = True\<rparr>,
        AUDIO_MICROPHONE \<mapsto> \<lparr>source_muted = True, source_enabled = True\<rparr>]\<rparr>"

text \<open>The state when the module is loaded: every global pointer is null.\<close>

definition startup :: "obs_host \<Rightarrow> plugin_state" where
  "startup h =
     \<lparr>plugin_config = None, websocket = None, sockets = Map.empty, next_object = 0,
      socket_trace = [], ui = initial_widget, obs = h, files = Map.empty,
      module_config_dir = ''plugin_config/meetingmind-plugin'', current_time = ''09:00:00''\<rparr>"

section \<open>The dispatch table of the specification\<close>

text \<open>
  Section 4.1 of the specification gives the dispatcher as a table: one row for each
  event type of the fixed enumeration, one column for each feature toggle, and in each
  cell at most one host action. The host actions of an event are the cells of its row
  whose toggle is enabled, from left to right.
\<close>

datatype event_type =
    Meeting_started
  | Meeting_ended
  | Presentation_started
  | Screen_share_started
  | Screen_share_ended
  | Break_started
  | Break_ended

fun event_name :: "event_type \<Rightarrow> string" where
  "event_name Meeting_started = ''meeting_started''"
| "event_name Meeting_ended = ''meeting_ended''"
| "event_name Presentation_started = ''presentation_started''"
| "event_name Screen_share_started = ''screen_share_started''"
| "event_name Screen_share_ended = ''screen_share_ended''"
| "event_name Break_started = ''break_started''"
| "event_name Break_ended = ''break_ended''"

datatype action =
    Switch_to_scene string
  | Start_recording
  | Stop_recording
  | Mute string
  | Unmute string

fun scene_cell :: "event_type \<Rightarrow> action list" where
  "scene_cell Meeting_started = [Switch_to_scene ''Meeting - Welcome'']"
| "scene_cell Meeting_ended = [Switch_to_scene ''Meeting - Ending'']"
| "scene_cell Presentation_started = [Switch_to_scene ''Meeting - Presentation'']"
| "scene_cell Screen_share_started = [Switch_to_scene ''Meeting - Screen Share'']"
| "scene_cell Screen_share_ended = [Switch_to_scene ''Meeting - Discussion'']"
| "scene_cell Break_started = [Switch_to_scene ''Meeting - Break'']"
| "scene_cell Break_ended = [Switch_to_scene ''Meeting - Discussion'']"

fun recording_cell :: "event_type \<Rightarrow> action list" where
  "recording_cell Meeting_started = [Start_recording]"
| "recording_cell Meeting_ended = [Stop_recording]"
| "recording_cell _ = []"

fun audio_cell :: "event_type \<Rightarrow> action list" where
  "audio_cell Meeting_started = [Unmute ''Microphone'']"
| "audio_cell Screen_share_started = [Unmute ''Desktop Audio'']"
| "audio_cell Break_started = [Mute ''Microphone'']"
| "audio_cell Break_ended = [Unmute ''Microphone'']"
| "audio_cell _ = []"

definition table_actions :: "event_type \<Rightarrow> bool \<Rightarrow> bool \<Rightarrow> bool \<Rightarrow> action list" where
  "table_actions e scene_switching recording audio =
     (if scene_switching then scene_cell e else [])
     @ (if recording then recording_cell e else [])
     @ (if audio then audio_cell e else [])"

text \<open>Invoking an action is calling the function of the plugin that performs it.\<close>

fun invoke :: "action \<Rightarrow> obs_host \<Rightarrow> obs_host" where
  "invoke (Switch_to_scene name) h = switch_to_scene name h"
| "invoke Start_recording h = start_recording h"
| "invoke Stop_recording h = stop_recording h"
| "invoke (Mute name) h = set_source_mute name True h"
| "invoke (Unmute name) h = set_source_mute name False h"

fun invoke_all :: "action list \<Rightarrow> obs_host \<Rightarrow> obs_host" where
  "invoke_all [] h = h"
| "invoke_all (a # as) h = invoke_all as (invoke a h)"

text \<open>
  An action is attempted when its first call reaches the host: the lookup of the scene or
  source, or the query of the recording state.
\<close>

fun first_call :: "action \<Rightarrow> host_call" where
  "first_call (Switch_to_scene name) = Get_source_by_name name"
| "first_call Start_recording = Recording_active"
| "first_call Stop_recording = Recording_active"
| "first_call (Mute name) = Get_source_by_name name"
| "first_call (Unmute name) = Get_source_by_name name"

fun is_first_call :: "host_call \<Rightarrow> bool" where
  "is_first_call (Get_source_by_name _) = True"
| "is_first_call Recording_active = True"
| "is_first_call _ = False"

text \<open>The calls that change something at the host, as opposed to lookups and queries.\<close>

fun is_effect :: "host_call \<Rightarrow> bool" where
  "is_effect (Get_source_by_name _) = False"
| "is_effect (Source_release _) = False"
| "is_effect Recording_active = False"
| "is_effect _ = True"

section \<open>Socket objects that exist\<close>






text \<open>
  A state with one socket, as a first connect leaves it, with the meeting identifier
  \<open>standup\<close> entered in the form.
\<close>

definition one_socket_state :: plugin_state where
  "one_socket_state =
     (load_config (startup bare_host))
       \<lparr>websocket := Some 0,
        sockets := [0 \<mapsto> \<lparr>socket_state = ConnectingState,
                            socket_request = Some \<lparr>request_url = ''ws://localhost:8080/ws'',
                                                    raw_headers = []\<rparr>\<rparr>],
        next_object := 1,
        socket_trace := [Op_new 0, Op_open 0 \<lparr>request_url = ''ws://localhost:8080/ws'',
                                                raw_headers = []\<rparr>],
        ui := initial_widget\<lparr>meeting_id_edit := ''standup''\<rparr>\<rparr>"

section \<open>The event dispatcher\<close>

subsection \<open>What one action does at the host\<close>

lemmas host_api_defs =
  obs_get_source_by_name_def obs_frontend_set_current_scene_def obs_source_release_def
  obs_source_set_muted_def obs_source_set_enabled_def obs_frontend_recording_active_def
  obs_frontend_recording_start_def obs_frontend_recording_stop_def called_def blog_def

lemmas host_action_defs =
  switch_to_scene_def set_source_mute_def start_recording_def stop_recording_def

lemmas name_defs =
  SCENE_WELCOME_def SCENE_PRESENTATION_def SCENE_DISCUSSION_def SCENE_SCREEN_SHARE_def
  SCENE_BREAK_def SCENE_ENDING_def AUDIO_MICROPHONE_def AUDIO_DESKTOP_def AUDIO_MEETING_def

lemma invoke_first_call:
  "filter is_first_call (host_calls (invoke a h)) =
     filter is_first_call (host_calls h) @ [first_call a]"
  by (cases a) (auto simp: host_action_defs host_api_defs Let_def split: option.split)

lemma invoke_all_first_calls:
  "filter is_first_call (host_calls (invoke_all as h)) =
     filter is_first_call (host_calls h) @ map first_call as"
  by (induction as arbitrary: h) (simp_all add: invoke_first_call)

lemma invoke_recording:
  "host_recording (invoke a h) =
     (case a of Start_recording \<Rightarrow> True | Stop_recording \<Rightarrow> False | _ \<Rightarrow> host_recording h)"
  by (cases a) (auto simp: host_action_defs host_api_defs Let_def split: option.split)

lemma invoke_count_start:
  "count_list (host_calls (invoke a h)) Recording_start =
     count_list (host_calls h) Recording_start
     + (if a = Start_recording \<and> \<not> host_recording h then 1 else 0)"
  by (cases a) (auto simp: host_action_defs host_api_defs Let_def split: option.split)

lemma invoke_count_stop:
  "count_list (host_calls (invoke a h)) Recording_stop =
     count_list (host_calls h) Recording_stop
     + (if a = Stop_recording \<and> host_recording h then 1 else 0)"
  by (cases a) (auto simp: host_action_defs host_api_defs Let_def split: option.split)

subsection \<open>The dispatcher and the table\<close>

lemma handle_known_event:
  "handle_meeting_event (event_name e) data w =
     (case plugin_config w of
        None \<Rightarrow> w
      | Some c \<Rightarrow> w\<lparr>obs := invoke_all (table_actions e (auto_scene_switching c)
                                  (auto_recording c) (audio_management c)) (obs w)\<rparr>)"
  by (cases e)
     (simp_all add: handle_meeting_event_def table_actions_def Let_def name_defs
        split: option.split)

lemma handle_unknown_event:
  assumes "event_type \<notin> range event_name"
  shows "handle_meeting_event event_type data w = w"
proof -
  have "event_type \<noteq> event_name e" for e
    using assms by blast
  from this [of Meeting_started] this [of Meeting_ended] this [of Presentation_started]
    this [of Screen_share_started] this [of Screen_share_ended] this [of Break_started]
    this [of Break_ended]
  show ?thesis
    by (simp add: handle_meeting_event_def split: option.split)
qed

lemma participant_joined_unknown: "''participant_joined'' \<notin> range event_name"
proof
  assume "''participant_joined'' \<in> range event_name"
  then obtain e where "''participant_joined'' = event_name e"
    by blast
  then show False
    by (cases e) simp_all
qed

text \<open>
  C1. For every event type of the enumeration and every setting of the three toggles,
  \<open>handle_meeting_event\<close> invokes the host actions of the event's row of the table whose
  toggle is enabled, in the order of the columns, and nothing else: the state after the
  call is the state before it with these actions invoked at the host one after the other.
\<close>

theorem dispatch_matches_table:
  "handle_meeting_event (event_name e) data (w\<lparr>plugin_config := Some c\<rparr>) =
     w\<lparr>plugin_config := Some c,
       obs := invoke_all (table_actions e (auto_scene_switching c) (auto_recording c)
                            (audio_management c)) (obs w)\<rparr>"
  by (simp add: handle_known_event)

text \<open>
  C2. For an event type that is not in the enumeration, \<open>handle_meeting_event\<close> leaves the
  whole state as it is, whatever the toggles are: no call reaches the host, nothing is
  logged, and the function returns normally.
\<close>

theorem unknown_event_ignored:
  "event_type \<notin> range event_name \<Longrightarrow> handle_meeting_event event_type data w = w"
  by (rule handle_unknown_event)

theorem unknown_event_ignored_witness:
  "''participant_joined'' \<notin> range event_name
   \<and> handle_meeting_event ''participant_joined'' [] (load_config (startup studio_host))
       = load_config (startup studio_host)"
  using participant_joined_unknown
    unknown_event_ignored [of "''participant_joined''" "[]" "load_config (startup studio_host)"]
  by simp

text \<open>
  C3, as the code has it. Every action of an event's list is attempted, whatever the
  host resolves: the first calls that reach the host are those of the listed actions, in
  order. A scene that does not resolve leaves one warning in the host's log and changes
  nothing else; a source that does not resolve changes nothing and leaves no line in the
  log. The dispatcher has no error result.
\<close>

theorem failed_action_does_not_stop_later_actions:
  "filter is_first_call
     (host_calls (obs (handle_meeting_event (event_name e) data (w\<lparr>plugin_config := Some c\<rparr>))))
     = filter is_first_call (host_calls (obs w))
       @ map first_call (table_actions e (auto_scene_switching c) (auto_recording c)
                           (audio_management c))
   \<and> (host_sources h name = None \<longrightarrow>
        switch_to_scene name h =
          h\<lparr>host_log := host_log h
               @ [(LOG_WARNING, ''MeetingMind: Scene '' @ quoted name @ '' not found'')],
            host_calls := host_calls h @ [Get_source_by_name name]\<rparr>)
   \<and> (host_sources h name = None \<longrightarrow>
        set_source_mute name muted h =
          h\<lparr>host_calls := host_calls h @ [Get_source_by_name name]\<rparr>)"
  by (simp add: handle_known_event invoke_all_first_calls host_action_defs host_api_defs)

theorem failed_action_does_not_stop_later_actions_witness:
  "host_sources bare_host ''Meeting - Welcome'' = None
   \<and> filter is_first_call
       (host_calls (obs (handle_meeting_event (event_name Meeting_started) []
          ((startup bare_host)\<lparr>plugin_config := Some (bzalloc_config
              \<lparr>auto_scene_switching := True, auto_recording := True,
               audio_management := True\<rparr>)\<rparr>))))
       = [Get_source_by_name ''Meeting - Welcome'', Recording_active,
          Get_source_by_name ''Microphone'']
   \<and> host_log (switch_to_scene ''Meeting - Welcome'' bare_host)
       = [(LOG_WARNING, ''MeetingMind: Scene '' @ quoted ''Meeting - Welcome'' @ '' not found'')]
   \<and> set_source_mute ''Meeting - Welcome'' False bare_host
       = bare_host\<lparr>host_calls := [Get_source_by_name ''Meeting - Welcome'']\<rparr>"
  using failed_action_does_not_stop_later_actions
    [where e = Meeting_started and data = "[]" and w = "startup bare_host"
       and c = "bzalloc_config\<lparr>auto_scene_switching := True, auto_recording := True,
                               audio_management := True\<rparr>"
       and h = bare_host and name = "''Meeting - Welcome''" and muted = False]
  by (simp add: bare_host_def startup_def bzalloc_config_def table_actions_def)

text \<open>
  C3, as stated, fails: with every toggle on and a host that has neither the scene
  \<open>Meeting - Break\<close> nor the source \<open>Microphone\<close>, the event \<open>break_started\<close> attempts both
  actions and both fail, but the log holds one line, for the scene. The failure to
  resolve the source is not logged.
\<close>

theorem unresolved_source_is_not_logged:
  "host_sources bare_host ''Meeting - Break'' = None
   \<and> host_sources bare_host ''Microphone'' = None
   \<and> host_calls (obs (handle_meeting_event ''break_started'' []
        ((startup bare_host)\<lparr>plugin_config := Some (bzalloc_config
            \<lparr>auto_scene_switching := True, auto_recording := True,
             audio_management := True\<rparr>)\<rparr>)))
       = [Get_source_by_name ''Meeting - Break'', Get_source_by_name ''Microphone'']
   \<and> host_log (obs (handle_meeting_event ''break_started'' []
        ((startup bare_host)\<lparr>plugin_config := Some (bzalloc_config
            \<lparr>auto_scene_switching := True, auto_recording := True,
             audio_management := True\<rparr>)\<rparr>)))
       = [(LOG_WARNING, ''MeetingMind: Scene '' @ quoted ''Meeting - Break'' @ '' not found'')]"
  by (simp add: handle_meeting_event_def bare_host_def startup_def bzalloc_config_def
        name_defs host_action_defs host_api_defs)

text \<open>
  C10. \<open>start_recording\<close> does nothing but query the state when the host is already
  recording, and \<open>stop_recording\<close> nothing but query it when the host is not recording.
  Two dispatches of \<open>meeting_started\<close> in a row add at most one recording-start call to
  the calls the host has received, and two dispatches of \<open>meeting_ended\<close> at most one
  recording-stop call.
\<close>

theorem recording_actions_idempotent:
  "(host_recording h \<longrightarrow> start_recording h = called Recording_active h)
   \<and> (\<not> host_recording h \<longrightarrow> stop_recording h = called Recording_active h)
   \<and> count_list (host_calls (obs (handle_meeting_event ''meeting_started'' data'
         (handle_meeting_event ''meeting_started'' data w)))) Recording_start
       \<le> count_list (host_calls (obs w)) Recording_start + 1
   \<and> count_list (host_calls (obs (handle_meeting_event ''meeting_ended'' data'
         (handle_meeting_event ''meeting_ended'' data w)))) Recording_stop
       \<le> count_list (host_calls (obs w)) Recording_stop + 1"
proof (intro conjI impI)
  assume "host_recording h"
  then show "start_recording h = called Recording_active h"
    by (simp add: start_recording_def obs_frontend_recording_active_def)
next
  assume "\<not> host_recording h"
  then show "stop_recording h = called Recording_active h"
    by (simp add: stop_recording_def obs_frontend_recording_active_def)
next
  show "count_list (host_calls (obs (handle_meeting_event ''meeting_started'' data'
          (handle_meeting_event ''meeting_started'' data w)))) Recording_start
        \<le> count_list (host_calls (obs w)) Recording_start + 1"
    using handle_known_event [of Meeting_started]
    by (cases "plugin_config w")
       (simp_all add: table_actions_def invoke_count_start invoke_recording del: invoke.simps)
next
  show "count_list (host_calls (obs (handle_meeting_event ''meeting_ended'' data'
          (handle_meeting_event ''meeting_ended'' data w)))) Recording_stop
        \<le> count_list (host_calls (obs w)) Recording_stop + 1"
    using handle_known_event [of Meeting_ended]
    by (cases "plugin_config w")
       (simp_all add: table_actions_def invoke_count_stop invoke_recording del: invoke.simps)
qed

theorem recording_actions_idempotent_witness:
  "host_recording (start_recording bare_host)
   \<and> start_recording (start_recording bare_host)
       = called Recording_active (start_recording bare_host)
   \<and> \<not> host_recording bare_host
   \<and> stop_recording bare_host = called Recording_active bare_host
   \<and> count_list (host_calls (obs (handle_meeting_event ''meeting_started'' []
         (handle_meeting_event ''meeting_started'' [] (load_config (startup bare_host))))))
         Recording_start = 1"
proof -
  have a: "host_recording (start_recording bare_host)"
    by (simp add: bare_host_def host_action_defs host_api_defs)
  have b: "\<not> host_recording bare_host"
    by (simp add: bare_host_def)
  have c: "count_list (host_calls (obs (handle_meeting_event ''meeting_started'' []
         (handle_meeting_event ''meeting_started'' [] (load_config (startup bare_host))))))
         Recording_start = 1"
    by (simp add: handle_meeting_event_def load_config_def startup_def bare_host_def
          config_open_def config_create_def obs_module_config_path_def bzalloc_config_def
          bstrdup_def name_defs host_action_defs host_api_defs Let_def)
  from a b c
    recording_actions_idempotent [where h = "start_recording bare_host" and data = "[]"
      and data' = "[]" and w = "load_config (startup bare_host)"]
    recording_actions_idempotent [where h = bare_host and data = "[]" and data' = "[]"
      and w = "load_config (startup bare_host)"]
  show ?thesis
    by simp
qed

section \<open>What each function leaves alone\<close>

lemma log_message_fields [simp]:
  "plugin_config (log_message m w) = plugin_config w"
  "websocket (log_message m w) = websocket w"
  "sockets (log_message m w) = sockets w"
  "next_object (log_message m w) = next_object w"
  "socket_trace (log_message m w) = socket_trace w"
  "obs (log_message m w) = obs w"
  "files (log_message m w) = files w"
  "meeting_id_edit (ui (log_message m w)) = meeting_id_edit (ui w)"
  by (simp_all add: log_message_def Let_def)

lemma update_connection_status_fields [simp]:
  "plugin_config (update_connection_status w) = plugin_config w"
  "websocket (update_connection_status w) = websocket w"
  "sockets (update_connection_status w) = sockets w"
  "next_object (update_connection_status w) = next_object w"
  "socket_trace (update_connection_status w) = socket_trace w"
  "obs (update_connection_status w) = obs w"
  "files (update_connection_status w) = files w"
  "meeting_id_edit (ui (update_connection_status w)) = meeting_id_edit (ui w)"
  by (simp_all add: update_connection_status_def)

lemma handle_meeting_event_fields [simp]:
  "plugin_config (handle_meeting_event t d w) = plugin_config w"
  "websocket (handle_meeting_event t d w) = websocket w"
  "sockets (handle_meeting_event t d w) = sockets w"
  "next_object (handle_meeting_event t d w) = next_object w"
  "socket_trace (handle_meeting_event t d w) = socket_trace w"
  by (simp_all add: handle_meeting_event_def Let_def split: option.split)

lemma save_config_fields [simp]:
  "plugin_config (save_config w) = plugin_config w"
  "websocket (save_config w) = websocket w"
  "sockets (save_config w) = sockets w"
  "next_object (save_config w) = next_object w"
  "socket_trace (save_config w) = socket_trace w"
  by (simp_all add: save_config_def config_save_def Let_def split: option.split)

lemma load_config_fields [simp]:
  "websocket (load_config w) = websocket w"
  "sockets (load_config w) = sockets w"
  "next_object (load_config w) = next_object w"
  "socket_trace (load_config w) = socket_trace w"
  by (simp_all add: load_config_def Let_def split: prod.split)

lemma on_config_changed_fields [simp]:
  "websocket (on_config_changed w) = websocket w"
  "sockets (on_config_changed w) = sockets w"
  "next_object (on_config_changed w) = next_object w"
  "socket_trace (on_config_changed w) = socket_trace w"
  by (simp_all add: on_config_changed_def Let_def split: option.split)

lemma on_websocket_disconnected_fields [simp]:
  "websocket (on_websocket_disconnected w) = websocket w"
  "sockets (on_websocket_disconnected w) = sockets w"
  "next_object (on_websocket_disconnected w) = next_object w"
  "socket_trace (on_websocket_disconnected w) = socket_trace w"
  by (simp_all add: on_websocket_disconnected_def Let_def split: option.split)

lemma on_websocket_message_fields [simp]:
  "plugin_config (on_websocket_message m w) = plugin_config w"
  "websocket (on_websocket_message m w) = websocket w"
  "sockets (on_websocket_message m w) = sockets w"
  "next_object (on_websocket_message m w) = next_object w"
  "socket_trace (on_websocket_message m w) = socket_trace w"
  by (simp_all add: on_websocket_message_def Let_def)

lemma on_status_update_fields [simp]:
  "plugin_config (on_status_update w) = plugin_config w"
  "websocket (on_status_update w) = websocket w"
  "sockets (on_status_update w) = sockets w"
  "next_object (on_status_update w) = next_object w"
  "socket_trace (on_status_update w) = socket_trace w"
  by (simp_all add: on_status_update_def Let_def split: prod.split)

lemmas config_file_defs =
  config_save_def config_create_def config_open_def config_set_string_def
  config_set_int_def config_set_bool_def config_get_string_def config_get_int_def
  config_get_bool_def bstrdup_def obs_module_config_path_def

lemmas socket_defs =
  QWebSocket_close_def delete_QWebSocket_def new_QWebSocket_def QWebSocket_open_def
  QWebSocket_sendTextMessage_def

lemmas json_defs =
  fromJson_def toJson_def object_def json_value_def json_insert_def toString_def
  toObject_def

lemma default_state:
  "load_config (startup h) =
     (startup h)\<lparr>plugin_config := Some
        \<lparr>server_url = Some ''localhost'', server_port = 8080, api_key = Some [],
         auto_scene_switching = True, auto_recording = True, audio_management = True,
         meeting_notifications = True, connection_timeout = 10, meeting_id = Some [],
         connected = False\<rparr>\<rparr>"
  by (simp add: load_config_def startup_def config_file_defs bzalloc_config_def)

section \<open>The activity log\<close>


section \<open>The configuration round trip\<close>




section \<open>The socket callbacks\<close>

text \<open>
  C4, as the code has it. A call of the opened callback sends exactly one subscribe
  message, with the members \<open>type\<close>, which is \<open>subscribe\<close>, and \<open>meeting_id\<close>, which is the
  text of the meeting identifier field of the form, when that text is not empty; when it
  is empty the call sends nothing.
\<close>

theorem subscribe_sent_on_open:
  "(meeting_id_edit (ui w) \<noteq> [] \<longrightarrow> websocket w = Some p \<longrightarrow> sockets w p = Some s \<longrightarrow>
      map_option socket_trace (on_websocket_connected w) =
        Some (socket_trace w
              @ [Op_send p (Json_text (DocObject
                   [(''type'', JString ''subscribe''),
                    (''meeting_id'', JString (meeting_id_edit (ui w)))]))]))
   \<and> (meeting_id_edit (ui w) = [] \<longrightarrow>
        map_option socket_trace (on_websocket_connected w) = Some (socket_trace w))"
  by (cases "plugin_config w")
     (simp_all add: on_websocket_connected_def QWebSocket_sendTextMessage_def json_insert_def
        toJson_def Let_def)

theorem subscribe_sent_on_open_witness:
  "meeting_id_edit (ui one_socket_state) \<noteq> []
   \<and> map_option socket_trace (on_websocket_connected one_socket_state) =
       Some (socket_trace one_socket_state
             @ [Op_send 0 (Json_text (DocObject
                  [(''type'', JString ''subscribe''), (''meeting_id'', JString ''standup'')]))])
   \<and> meeting_id_edit (ui (startup bare_host)) = []
   \<and> map_option socket_trace (on_websocket_connected (startup bare_host)) = Some []"
proof -
  have a: "meeting_id_edit (ui one_socket_state) = ''standup''"
    and b: "websocket one_socket_state = Some 0"
    and c: "sockets one_socket_state 0 =
        Some \<lparr>socket_state = ConnectingState,
              socket_request = Some \<lparr>request_url = ''ws://localhost:8080/ws'',
                                      raw_headers = []\<rparr>\<rparr>"
    by (simp_all add: one_socket_state_def)
  have d: "meeting_id_edit (ui (startup bare_host)) = []"
    and e: "socket_trace (startup bare_host) = []"
    by (simp_all add: startup_def initial_widget_def)
  from a b c d e
    subscribe_sent_on_open [where w = one_socket_state and p = 0]
    subscribe_sent_on_open [where w = "startup bare_host"]
  show ?thesis
    by simp
qed

text \<open>
  C4, as stated, fails: after the configuration is loaded with no file present, so that
  the meeting identifier is empty, a connect and the opened callback leave a record of
  socket operations with the creation and the opening of the socket and no send.
\<close>

theorem no_subscribe_without_meeting_id:
  "map_option socket_trace
     (run [Load_config, Connect_clicked, Websocket_connected] (startup bare_host))
   = Some [Op_new 0, Op_open 0 \<lparr>request_url = ''ws://localhost:8080/ws'', raw_headers = []\<rparr>]"
  by (simp add: default_state)
     (simp add: startup_def on_connect_clicked_def connect_to_server_def
        on_websocket_connected_def new_QWebSocket_def QWebSocket_open_def initial_widget_def
        show_int_def digit_def Let_def)

text \<open>
  C8, as the code has it. A message that is not the text of a JSON document, or whose
  document has no member \<open>type\<close>, is handled without failure: the event type decodes to
  the empty string, the line \<open>Received event:\<close> is logged and the host is left as it is.
  A message with no member \<open>data\<close> is dispatched by its type with the empty payload.
\<close>

theorem message_without_type_is_ignored:
  "(fromJson message = DocNull \<or> map_of (object (fromJson message)) ''type'' = None \<longrightarrow>
      on_websocket_message message w = log_message ''Received event: '' w
      \<and> obs (on_websocket_message message w) = obs w)
   \<and> (map_of (object (fromJson message)) ''data'' = None \<longrightarrow>
      on_websocket_message message w =
        handle_meeting_event (toString (json_value (object (fromJson message)) ''type'')) []
          (log_message (''Received event: ''
             @ toString (json_value (object (fromJson message)) ''type'')) w))"
  by (auto simp: on_websocket_message_def object_def json_value_def toString_def toObject_def
        handle_meeting_event_def Let_def split: option.split)

theorem message_without_type_is_ignored_witness:
  "fromJson (Other_text ''meeting_started'') = DocNull
   \<and> map_of (object (fromJson (Other_text ''meeting_started''))) ''data'' = None
   \<and> obs (on_websocket_message (Other_text ''meeting_started'') (load_config (startup bare_host)))
       = bare_host
   \<and> on_websocket_message (Other_text ''meeting_started'') (load_config (startup bare_host))
       = log_message ''Received event: '' (load_config (startup bare_host))"
proof -
  have a: "fromJson (Other_text ''meeting_started'') = DocNull"
    by (simp add: fromJson_def)
  have b: "map_of (object (fromJson (Other_text ''meeting_started''))) ''data'' = None"
    by (simp add: fromJson_def object_def)
  have c: "obs (load_config (startup bare_host)) = bare_host"
    unfolding default_state by (simp add: startup_def)
  from a b c
    message_without_type_is_ignored [where message = "Other_text ''meeting_started''"
      and w = "load_config (startup bare_host)"]
  show ?thesis
    by simp
qed

text \<open>
  C8, as stated, fails: the message \<open>{"type": "meeting_started"}\<close> has no member \<open>data\<close>,
  and with the default configuration the dispatcher looks up the welcome scene, starts
  the recording and looks up the microphone.
\<close>

theorem message_without_data_still_acts:
  "map_of (object (fromJson (Json_text (DocObject [(''type'', JString ''meeting_started'')]))))
     ''data'' = None
   \<and> host_calls (obs (on_websocket_message
        (Json_text (DocObject [(''type'', JString ''meeting_started'')]))
        (load_config (startup bare_host))))
     = [Get_source_by_name ''Meeting - Welcome'', Recording_active, Recording_start,
        Get_source_by_name ''Microphone'']"
  unfolding default_state
  by (simp add: on_websocket_message_def json_defs handle_meeting_event_def startup_def
        bare_host_def name_defs host_action_defs host_api_defs Let_def)

section \<open>One socket at a time\<close>










lemma opened_effect:
  assumes "on_websocket_connected w = Some w'"
  shows "websocket w' = websocket w \<and> sockets w' = sockets w
         \<and> next_object w' = next_object w
         \<and> plugin_config w' = map_option (\<lambda>c. c\<lparr>connected := True\<rparr>) (plugin_config w)
         \<and> (socket_trace w' = socket_trace w
              \<or> (\<exists>p m. websocket w = Some p \<and> socket_trace w' = socket_trace w @ [Op_send p m]))"
proof (cases "plugin_config w")
  case None
  with assms show ?thesis
    by (auto simp: on_websocket_connected_def QWebSocket_sendTextMessage_def Let_def
          split: if_splits option.splits bind_splits)
next
  case (Some c)
  with assms show ?thesis
    by (auto simp: on_websocket_connected_def QWebSocket_sendTextMessage_def Let_def
          split: if_splits option.splits bind_splits)
qed






section \<open>The connected flag\<close>

lemma connect_config:
  "connect_to_server w = Some w' \<Longrightarrow> plugin_config w' = plugin_config w"
  by (auto simp: connect_to_server_def socket_defs Let_def
        split: option.splits bind_splits if_splits)

lemma disconnect_config:
  "disconnect_from_server w = Some w' \<Longrightarrow> plugin_config w' = plugin_config w"
  by (auto simp: disconnect_from_server_def QWebSocket_close_def split: option.splits)

lemma on_config_changed_flag:
  "connected_flag (on_config_changed w) = connected_flag w"
  by (simp add: on_config_changed_def connected_flag_def Let_def split: option.split)

lemma load_config_flag: "\<not> connected_flag (load_config w)"
  by (simp add: load_config_def connected_flag_def Let_def split: prod.split)

lemma closed_flag: "\<not> connected_flag (on_websocket_disconnected w)"
  by (simp add: on_websocket_disconnected_def connected_flag_def Let_def split: option.split)

lemma opened_flag:
  "on_websocket_connected w = Some w' \<Longrightarrow> connected_flag w' = (plugin_config w \<noteq> None)"
  by (drule opened_effect) (cases "plugin_config w"; simp add: connected_flag_def)

text \<open>A call after which the flag is true is the opened callback, or found it true.\<close>

lemma step_flag:
  assumes "step e w = Some w'" and "connected_flag w'"
  shows "e = Websocket_connected
         \<or> (connected_flag w \<and> e \<noteq> Websocket_disconnected \<and> e \<noteq> Load_config)"
proof (cases e)
  case Load_config
  with assms load_config_flag [of w] show ?thesis by auto
next
  case (Form_edited x)
  with assms on_config_changed_flag [of "w\<lparr>ui := apply_edit x (ui w)\<rparr>"] show ?thesis
    by (auto simp: connected_flag_def)
next
  case Connect_clicked
  with assms show ?thesis
    by (auto simp: on_connect_clicked_def connected_flag_def dest: connect_config)
next
  case Disconnect_clicked
  with assms show ?thesis
    by (auto simp: on_disconnect_clicked_def connected_flag_def dest: disconnect_config)
next
  case Websocket_connected
  then show ?thesis by simp
next
  case Websocket_disconnected
  with assms closed_flag [of w] show ?thesis by auto
next
  case (Websocket_message m)
  with assms show ?thesis by (auto simp: connected_flag_def)
next
  case Status_update
  with assms show ?thesis by (auto simp: connected_flag_def)
next
  case (Clock t)
  with assms show ?thesis by (auto simp: connected_flag_def)
qed

text \<open>A call other than the closed callback and the loading keeps the flag true.\<close>

lemma step_keeps_flag:
  assumes "step e w = Some w'" and "connected_flag w"
    and "e \<noteq> Websocket_disconnected" and "e \<noteq> Load_config"
  shows "connected_flag w'"
proof (cases e)
  case (Form_edited x)
  with assms on_config_changed_flag [of "w\<lparr>ui := apply_edit x (ui w)\<rparr>"] show ?thesis
    by (auto simp: connected_flag_def)
next
  case Connect_clicked
  with assms show ?thesis
    by (auto simp: on_connect_clicked_def connected_flag_def dest: connect_config)
next
  case Disconnect_clicked
  with assms show ?thesis
    by (auto simp: on_disconnect_clicked_def connected_flag_def dest: disconnect_config)
next
  case Websocket_connected
  with assms(1) have "connected_flag w' = (plugin_config w \<noteq> None)"
    by (simp add: opened_flag)
  with assms(2) show ?thesis
    by (auto simp: connected_flag_def)
next
  case (Websocket_message m)
  with assms show ?thesis by (auto simp: connected_flag_def)
next
  case Status_update
  with assms show ?thesis by (auto simp: connected_flag_def)
next
  case (Clock t)
  with assms show ?thesis by (auto simp: connected_flag_def)
qed (use assms in simp_all)

lemma flag_history:
  assumes "run evs w = Some w'" and "connected_flag w'"
  shows "(connected_flag w \<and> Websocket_disconnected \<notin> set evs \<and> Load_config \<notin> set evs)
         \<or> (\<exists>pre post. evs = pre @ Websocket_connected # post
               \<and> Websocket_disconnected \<notin> set post \<and> Load_config \<notin> set post)"
  using assms
proof (induction evs arbitrary: w)
  case Nil
  then show ?case by simp
next
  case (Cons e es)
  from Cons.prems(1) obtain w1 where s: "step e w = Some w1" and r: "run es w1 = Some w'"
    by (auto split: option.splits)
  from Cons.IH [OF r Cons.prems(2)]
  show ?case
  proof
    assume a: "connected_flag w1 \<and> Websocket_disconnected \<notin> set es \<and> Load_config \<notin> set es"
    with step_flag [OF s] have "e = Websocket_connected
         \<or> (connected_flag w \<and> e \<noteq> Websocket_disconnected \<and> e \<noteq> Load_config)"
      by simp
    then show ?thesis
    proof
      assume "e = Websocket_connected"
      with a have "e # es = [] @ Websocket_connected # es
          \<and> Websocket_disconnected \<notin> set es \<and> Load_config \<notin> set es"
        by simp
      then show ?thesis by blast
    next
      assume "connected_flag w \<and> e \<noteq> Websocket_disconnected \<and> e \<noteq> Load_config"
      with a show ?thesis by auto
    qed
  next
    assume "\<exists>pre post. es = pre @ Websocket_connected # post
               \<and> Websocket_disconnected \<notin> set post \<and> Load_config \<notin> set post"
    then obtain pre post where "es = pre @ Websocket_connected # post"
      and "Websocket_disconnected \<notin> set post" and "Load_config \<notin> set post"
      by blast
    then have "e # es = (e # pre) @ Websocket_connected # post
        \<and> Websocket_disconnected \<notin> set post \<and> Load_config \<notin> set post"
      by simp
    then show ?thesis by blast
  qed
qed

lemma run_keeps_flag:
  assumes "run evs w = Some w'" and "connected_flag w"
    and "Websocket_disconnected \<notin> set evs" and "Load_config \<notin> set evs"
  shows "connected_flag w'"
  using assms
proof (induction evs arbitrary: w)
  case Nil
  then show ?case by simp
next
  case (Cons e es)
  from Cons.prems(1) obtain w1 where s: "step e w = Some w1" and r: "run es w1 = Some w'"
    by (auto split: option.splits)
  from s Cons.prems(2,3,4) have "connected_flag w1"
    by (auto intro: step_keeps_flag)
  with Cons.IH [OF r] Cons.prems(3,4) show ?case
    by simp
qed

text \<open>
  C7. The opened callback sets the connected flag when the configuration exists, the
  closed callback clears it, and it is false after the configuration is loaded. Over any
  sequence of calls from a state where the flag is false, the flag is true at the end
  only if the sequence has an opened callback with no closed callback (and no loading of
  the configuration) after it; and after an opened callback that is followed by neither,
  the flag is true.
\<close>

theorem connected_flag_tracks_callbacks:
  "(plugin_config w \<noteq> None \<longrightarrow> on_websocket_connected w = Some w' \<longrightarrow> connected_flag w')
   \<and> \<not> connected_flag (on_websocket_disconnected w)
   \<and> \<not> connected_flag (load_config w)
   \<and> (\<not> connected_flag w \<longrightarrow> run evs w = Some w' \<longrightarrow> connected_flag w' \<longrightarrow>
        (\<exists>pre post. evs = pre @ Websocket_connected # post
           \<and> Websocket_disconnected \<notin> set post \<and> Load_config \<notin> set post))
   \<and> (plugin_config w \<noteq> None \<longrightarrow> run (Websocket_connected # evs) w = Some w' \<longrightarrow>
        Websocket_disconnected \<notin> set evs \<longrightarrow> Load_config \<notin> set evs \<longrightarrow> connected_flag w')"
proof (intro conjI impI)
  assume "plugin_config w \<noteq> None" and "on_websocket_connected w = Some w'"
  then show "connected_flag w'"
    by (simp add: opened_flag)
next
  show "\<not> connected_flag (on_websocket_disconnected w)"
    by (rule closed_flag)
next
  show "\<not> connected_flag (load_config w)"
    by (rule load_config_flag)
next
  assume "\<not> connected_flag w" and "run evs w = Some w'" and "connected_flag w'"
  with flag_history [of evs w w']
  show "\<exists>pre post. evs = pre @ Websocket_connected # post
           \<and> Websocket_disconnected \<notin> set post \<and> Load_config \<notin> set post"
    by blast
next
  assume c: "plugin_config w \<noteq> None" and r: "run (Websocket_connected # evs) w = Some w'"
    and n: "Websocket_disconnected \<notin> set evs" "Load_config \<notin> set evs"
  from r obtain w1 where s: "on_websocket_connected w = Some w1" and r1: "run evs w1 = Some w'"
    by (auto split: option.splits)
  from s c have "connected_flag w1"
    by (simp add: opened_flag)
  with r1 show "connected_flag w'"
    using n by (rule run_keeps_flag)
qed

theorem connected_flag_tracks_callbacks_witness:
  "plugin_config (load_config (startup bare_host)) \<noteq> None
   \<and> \<not> connected_flag (load_config (startup bare_host))
   \<and> map_option connected_flag (on_websocket_connected (load_config (startup bare_host)))
       = Some True
   \<and> map_option connected_flag
       (run [Connect_clicked, Websocket_connected, Status_update] (load_config (startup bare_host)))
       = Some True
   \<and> (\<exists>pre post. [Connect_clicked, Websocket_connected, Status_update]
          = pre @ Websocket_connected # post
          \<and> Websocket_disconnected \<notin> set post \<and> Load_config \<notin> set post)
   \<and> map_option connected_flag
       (run [Websocket_connected, Status_update, Connect_clicked]
          (load_config (startup bare_host)))
       = Some True"
proof -
  let ?w = "load_config (startup bare_host)"
  let ?a = "[Connect_clicked, Websocket_connected, Status_update]"
  let ?b = "[Status_update, Connect_clicked]"
  have cfg: "plugin_config ?w \<noteq> None"
    unfolding default_state by (simp add: startup_def)
  have off: "\<not> connected_flag ?w"
    unfolding default_state by (simp add: startup_def connected_flag_def)
  have opened: "on_websocket_connected ?w = Some (the (on_websocket_connected ?w))"
    unfolding default_state
    by (simp add: on_websocket_connected_def startup_def initial_widget_def Let_def)
  have ra: "run ?a ?w = Some (the (run ?a ?w))"
    unfolding default_state
    by (simp add: startup_def on_connect_clicked_def connect_to_server_def socket_defs
          on_websocket_connected_def initial_widget_def show_int_def digit_def Let_def)
  have rb: "run (Websocket_connected # ?b) ?w = Some (the (run (Websocket_connected # ?b) ?w))"
    unfolding default_state
    by (simp add: startup_def on_connect_clicked_def connect_to_server_def socket_defs
          on_websocket_connected_def initial_widget_def show_int_def digit_def Let_def)
  from cfg opened
    connected_flag_tracks_callbacks [where w = ?w and w' = "the (on_websocket_connected ?w)"]
  have one: "connected_flag (the (on_websocket_connected ?w))"
    by blast
  from cfg rb
    connected_flag_tracks_callbacks [where w = ?w and evs = ?b
      and w' = "the (run (Websocket_connected # ?b) ?w)"]
  have two: "connected_flag (the (run (Websocket_connected # ?b) ?w))"
    by simp
  have on: "connected_flag (the (run ?a ?w))"
    unfolding default_state
    by (simp add: startup_def on_connect_clicked_def connect_to_server_def socket_defs
          on_websocket_connected_def on_status_update_def update_connection_status_def
          log_message_def obs_frontend_recording_active_def called_def connected_flag_def
          initial_widget_def show_int_def digit_def Let_def)
  from off ra on
    connected_flag_tracks_callbacks [where w = ?w and evs = ?a and w' = "the (run ?a ?w)"]
  have three: "\<exists>pre post. ?a = pre @ Websocket_connected # post
          \<and> Websocket_disconnected \<notin> set post \<and> Load_config \<notin> set post"
    by blast
  from opened one have o: "map_option connected_flag (on_websocket_connected ?w) = Some True"
    by (metis option.simps(9))
  from ra on have a: "map_option connected_flag (run ?a ?w) = Some True"
    by (metis option.simps(9))
  from rb two have b: "map_option connected_flag (run (Websocket_connected # ?b) ?w) = Some True"
    by (metis option.simps(9))
  from cfg off o a three b show ?thesis
    by blast
qed

end
